theory Spec2Isabelle
  imports Complex_Main "HOL-Library.Numeral_Type" "HOL-Library.Stream"
begin

section \<open>Deep Q-learning on CartPole-v1 (dqn.py)\<close>

text \<open>
  The script trains an action-value network on CartPole-v1. Its own code is the
  \<open>Network\<close> wrapper, the epsilon schedule \<open>decay\<close>, the global training state and the
  control loop. The environment (gymnasium), autograd and the Adam optimiser (PyTorch) are
  collaborators of the script and enter the model as parameters.

  Numbers: the float32 tensors of the network and the schedule inside the control loop are
  modelled over \<^typ>\<open>real\<close>, without rounding and without non-finite values. The
  schedule on its own is also given as the script computes it, in binary64 arithmetic
  (\<open>decay_f64\<close>). Python ints are \<^typ>\<open>nat\<close> where the script only counts upwards
  from 0.
\<close>

subsection \<open>Epsilon schedule\<close>

text \<open>
  \<^verbatim>\<open>def decay(eps_start, eps_end, eps_decayrate, current_step):
    return eps_end + (eps_start - eps_end) * np.exp(-1 * eps_decayrate * current_step)\<close>

  First the expression over the reals, as the control loop below uses it.
\<close>

definition decay :: "real \<Rightarrow> real \<Rightarrow> real \<Rightarrow> real \<Rightarrow> real" where
  "decay eps_start eps_end eps_decayrate current_step =
     eps_end + (eps_start - eps_end) * exp (-1 * eps_decayrate * current_step)"

definition epsilon_start :: real where "epsilon_start = 1"
definition epsilon_end :: real where "epsilon_end = 1 / 1000"
definition epsilon_decayrate :: real where "epsilon_decayrate = 3 / 1000"

definition batch_size :: nat where "batch_size = 32"
definition gamma :: real where "gamma = 99 / 100"

subsection \<open>The schedule in binary64\<close>

text \<open>
  A Python float is an IEEE binary64 number. \<open>Finite m e\<close> stands for \<open>m * 2 ^ e\<close>; the
  operations return it in the format's own normal form, a mantissa of exactly 53 bits or,
  for a subnormal number, a shorter one at the least exponent -1074. Zero carries no sign.
  \<open>round64 m e\<close> rounds the exact value \<open>m * 2 ^ e\<close> to the nearest such number, to the
  even mantissa on a tie, and to an infinity from \<open>2 ^ 1024\<close> on. Sum and product are the
  exact results, rounded.
\<close>

datatype float64 = Finite int int | PosInf | NegInf | NaN

fun bit_length :: "nat \<Rightarrow> nat" where
  "bit_length n = (if n = 0 then 0 else Suc (bit_length (n div 2)))"

declare bit_length.simps [simp del]

definition round_mag :: "nat \<Rightarrow> int \<Rightarrow> nat \<times> int" where
  "round_mag a e =
     (let e1 = max (e + int (bit_length a) - 53) (- 1074);
          d = nat (e1 - e);
          q0 = (if e1 \<le> e then a * 2 ^ nat (e - e1) else a div 2 ^ d);
          rem = (if e1 \<le> e then 0 else a mod 2 ^ d);
          half = (if e1 \<le> e then 1 else 2 ^ (d - 1));
          q1 = (if half < rem \<or> (rem = half \<and> odd q0) then q0 + 1 else q0)
      in if q1 = 2 ^ 53 then (2 ^ 52, e1 + 1) else (q1, e1))"

definition round64 :: "int \<Rightarrow> int \<Rightarrow> float64" where
  "round64 m e =
     (if m = 0 then Finite 0 (- 1074)
      else
        (let (q, e2) = round_mag (nat \<bar>m\<bar>) e
         in if 971 < e2 then (if m < 0 then NegInf else PosInf)
            else Finite (sgn m * int q) e2))"

definition is_double :: "float64 \<Rightarrow> bool" where
  "is_double x =
     (case x of
        Finite m e \<Rightarrow> \<bar>m\<bar> < 2 ^ 53 \<and> - 1074 \<le> e \<and> e \<le> 971 \<and> (\<bar>m\<bar> < 2 ^ 52 \<longrightarrow> e = - 1074)
      | _ \<Rightarrow> True)"

definition valof :: "float64 \<Rightarrow> real option" where
  "valof x = (case x of Finite m e \<Rightarrow> Some (real_of_int m * 2 powr real_of_int e) | _ \<Rightarrow> None)"

text \<open>
  The conversion of a Python int, used here for -1, 0 and 1 (a huge int would raise
  \<open>OverflowError\<close> instead of giving an infinity).
\<close>

definition float_of_int :: "int \<Rightarrow> float64" where
  "float_of_int n = round64 n 0"

fun fneg :: "float64 \<Rightarrow> float64" where
  "fneg (Finite m e) = Finite (- m) e"
| "fneg PosInf = NegInf"
| "fneg NegInf = PosInf"
| "fneg NaN = NaN"

fun fadd :: "float64 \<Rightarrow> float64 \<Rightarrow> float64" where
  "fadd NaN y = NaN"
| "fadd x NaN = NaN"
| "fadd PosInf NegInf = NaN"
| "fadd NegInf PosInf = NaN"
| "fadd PosInf y = PosInf"
| "fadd NegInf y = NegInf"
| "fadd x PosInf = PosInf"
| "fadd x NegInf = NegInf"
| "fadd (Finite m1 e1) (Finite m2 e2) =
     (let e = min e1 e2 in round64 (m1 * 2 ^ nat (e1 - e) + m2 * 2 ^ nat (e2 - e)) e)"

definition fsub :: "float64 \<Rightarrow> float64 \<Rightarrow> float64" where
  "fsub x y = fadd x (fneg y)"

fun fsign :: "float64 \<Rightarrow> int" where
  "fsign (Finite m e) = sgn m"
| "fsign PosInf = 1"
| "fsign NegInf = - 1"
| "fsign NaN = 0"

fun fmul :: "float64 \<Rightarrow> float64 \<Rightarrow> float64" where
  "fmul NaN y = NaN"
| "fmul x NaN = NaN"
| "fmul (Finite m1 e1) (Finite m2 e2) = round64 (m1 * m2) (e1 + e2)"
| "fmul x y =
     (if fsign x * fsign y = 0 then NaN
      else if fsign x * fsign y < 0 then NegInf else PosInf)"

text \<open>The comparison \<open>==\<close>: on numbers in normal form it is identity, except on NaN.\<close>

definition float_eq :: "float64 \<Rightarrow> float64 \<Rightarrow> bool" where
  "float_eq x y \<longleftrightarrow> x \<noteq> NaN \<and> y \<noteq> NaN \<and> x = y"

text \<open>
  \<open>np.exp\<close> is 1 at zero, and fixed on NaN and the infinities. Its value at every other
  argument is the library's, the parameter \<open>ex\<close>.
\<close>

fun np_exp :: "(float64 \<Rightarrow> float64) \<Rightarrow> float64 \<Rightarrow> float64" where
  "np_exp ex NaN = NaN"
| "np_exp ex PosInf = PosInf"
| "np_exp ex NegInf = float_of_int 0"
| "np_exp ex (Finite m e) = (if m = 0 then float_of_int 1 else ex (Finite m e))"

text \<open>Line 61, operation by operation: \<open>-1 * eps_decayrate\<close> is multiplied first.\<close>

definition decay_f64 ::
  "(float64 \<Rightarrow> float64) \<Rightarrow> float64 \<Rightarrow> float64 \<Rightarrow> float64 \<Rightarrow> float64 \<Rightarrow> float64" where
  "decay_f64 ex eps_start eps_end eps_decayrate current_step =
     fadd eps_end
       (fmul (fsub eps_start eps_end)
          (np_exp ex (fmul (fmul (float_of_int (- 1)) eps_decayrate) current_step)))"

text \<open>
  The float literals \<open>0.001\<close> and \<open>0.003\<close> of lines 72 and 73; \<open>epsilon_start = 1\<close> is an
  int and enters as \<open>float_of_int 1\<close>.
\<close>

definition epsilon_end_f64 :: float64 where
  "epsilon_end_f64 = Finite 4611686018427388 (- 62)"

definition epsilon_decayrate_f64 :: float64 where
  "epsilon_decayrate_f64 = Finite 6917529027641082 (- 61)"

subsection \<open>collections.deque\<close>

text \<open>
  A deque is its items, oldest first, and its optional \<open>maxlen\<close>. \<open>append\<close> (here
  \<open>append_deque\<close>) adds on the right and, when the bound is exceeded, drops one item on
  the left. \<open>popleft\<close> raises \<open>IndexError\<close> on an empty deque.
\<close>

datatype error = ValueError | IndexError

record 'a deque =
  items :: "'a list"
  maxlen :: "nat option"

definition deque :: "'a list \<Rightarrow> nat option \<Rightarrow> 'a deque" where
  "deque xs m =
     \<lparr>items = (case m of None \<Rightarrow> xs | Some n \<Rightarrow> drop (length xs - n) xs), maxlen = m\<rparr>"

definition len :: "'a deque \<Rightarrow> nat" where
  "len d = length (items d)"

definition append_deque :: "'a deque \<Rightarrow> 'a \<Rightarrow> 'a deque" where
  "append_deque d x =
     (let ys = items d @ [x]
      in case maxlen d of
           None \<Rightarrow> d\<lparr>items := ys\<rparr>
         | Some n \<Rightarrow> if n < length ys then d\<lparr>items := tl ys\<rparr> else d\<lparr>items := ys\<rparr>)"

definition popleft :: "'a deque \<Rightarrow> error + 'a deque" where
  "popleft d = (case items d of [] \<Rightarrow> Inl IndexError | x # xs \<Rightarrow> Inr (d\<lparr>items := xs\<rparr>))"

text \<open>\<^verbatim>\<open>replay_memory = deque(maxlen=50000)\<close>\<close>

definition replay_capacity :: nat where "replay_capacity = 50000"

definition replay_memory_init :: "'a deque" where
  "replay_memory_init = deque [] (Some replay_capacity)"

subsection \<open>Tensors\<close>

text \<open>
  A CartPole-v1 observation is a vector of 4 floats and the action space is
  \<open>Discrete(2)\<close>; both shapes are fixed by the environment, so they are index types.
  A tensor carries its data and the autograd attribute \<open>requires_grad\<close>. A batch of shape
  \<open>(N, 4)\<close> or \<open>(N, 2)\<close> is the list of its rows; a column of shape \<open>(N, 1)\<close> (what
  \<open>unsqueeze(-1)\<close> and \<open>keepdim=True\<close> produce) is the list of its single entries.
  The script never leaves gradient mode, so every network output requires grad.
\<close>

type_synonym obs = "4 \<Rightarrow> real"
type_synonym action = "2"
type_synonym q_row = "2 \<Rightarrow> real"

record 'a tensor =
  data :: 'a
  requires_grad :: bool

definition as_tensor :: "'a \<Rightarrow> 'a tensor" where
  "as_tensor x = \<lparr>data = x, requires_grad = False\<rparr>"

definition tensor_add :: "real list tensor \<Rightarrow> real list tensor \<Rightarrow> real list tensor" where
  "tensor_add a b =
     \<lparr>data = map2 (+) (data a) (data b), requires_grad = (requires_grad a \<or> requires_grad b)\<rparr>"

definition tensor_mul :: "real list tensor \<Rightarrow> real list tensor \<Rightarrow> real list tensor" where
  "tensor_mul a b =
     \<lparr>data = map2 (*) (data a) (data b), requires_grad = (requires_grad a \<or> requires_grad b)\<rparr>"

definition scalar_mul :: "real \<Rightarrow> real list tensor \<Rightarrow> real list tensor" where
  "scalar_mul c a = \<lparr>data = map (\<lambda>x. c * x) (data a), requires_grad = requires_grad a\<rparr>"

definition scalar_rsub :: "real \<Rightarrow> real list tensor \<Rightarrow> real list tensor" where
  "scalar_rsub c a = \<lparr>data = map (\<lambda>x. c - x) (data a), requires_grad = requires_grad a\<rparr>"

text \<open>
  \<open>torch.argmax\<close> returns the index of the first maximal value: the scan keeps the
  earlier index unless a later value is strictly greater. \<open>Tensor.max(dim=1)\<close> has the
  maximal value itself as its component 0.
\<close>

fun argmax_scan :: "('i \<Rightarrow> real) \<Rightarrow> 'i \<Rightarrow> 'i list \<Rightarrow> 'i" where
  "argmax_scan q best [] = best"
| "argmax_scan q best (i # is) = argmax_scan q (if q best < q i then i else best) is"

definition argmax :: "q_row \<Rightarrow> action" where
  "argmax q = argmax_scan q 0 [1]"

definition max_dim1 :: "q_row list tensor \<Rightarrow> real list tensor" where
  "max_dim1 t = \<lparr>data = map (\<lambda>q. max (q 0) (q 1)) (data t), requires_grad = requires_grad t\<rparr>"

definition gather_dim1 :: "q_row list tensor \<Rightarrow> action list tensor \<Rightarrow> real list tensor" where
  "gather_dim1 input index =
     \<lparr>data = map2 (\<lambda>q a. q a) (data input) (data index), requires_grad = requires_grad input\<rparr>"

text \<open>\<open>smooth_l1_loss\<close> with its defaults: \<open>beta = 1.0\<close>, the mean over all elements.\<close>

definition smooth_l1 :: "real \<Rightarrow> real" where
  "smooth_l1 d = (if \<bar>d\<bar> < 1 then d * d / 2 else \<bar>d\<bar> - 1 / 2)"

definition smooth_l1_loss :: "real list tensor \<Rightarrow> real list tensor \<Rightarrow> real tensor" where
  "smooth_l1_loss input target =
     \<lparr>data = sum_list (map2 (\<lambda>x y. smooth_l1 (x - y)) (data input) (data target))
               / real (length (data input)),
      requires_grad = (requires_grad input \<or> requires_grad target)\<rparr>"

subsection \<open>The network\<close>

text \<open>
  \<^verbatim>\<open>self.net = nn.Sequential(nn.Linear(4, 64), nn.Tanh(), nn.Linear(64, 2))\<close>

  The state dict holds \<open>net.0.weight\<close> (64 x 4), \<open>net.0.bias\<close> (64), \<open>net.2.weight\<close>
  (2 x 64) and \<open>net.2.bias\<close> (2). A \<open>Network\<close> object owns one such set of parameter
  values and their gradient buffers (\<open>.grad\<close>, \<open>None\<close> until a backward pass reaches them).
\<close>

record state_dict =
  weight0 :: "64 \<Rightarrow> 4 \<Rightarrow> real"
  bias0 :: "64 \<Rightarrow> real"
  weight2 :: "2 \<Rightarrow> 64 \<Rightarrow> real"
  bias2 :: "2 \<Rightarrow> real"

record network =
  params :: state_dict
  grad :: "state_dict option"

definition Network :: "state_dict \<Rightarrow> network" where
  \<comment> \<open>the constructor; the argument is the random initialisation it draws\<close>
  "Network init = \<lparr>params = init, grad = None\<rparr>"

definition linear :: "('o \<Rightarrow> 'i \<Rightarrow> real) \<Rightarrow> ('o \<Rightarrow> real) \<Rightarrow> ('i::finite \<Rightarrow> real) \<Rightarrow> ('o \<Rightarrow> real)" where
  "linear W b x = (\<lambda>j. (\<Sum>i\<in>UNIV. W j i * x i) + b j)"

definition net :: "state_dict \<Rightarrow> obs \<Rightarrow> q_row" where
  "net p x = linear (weight2 p) (bias2 p) (\<lambda>j. tanh (linear (weight0 p) (bias0 p) x j))"

definition forward :: "network \<Rightarrow> obs list tensor \<Rightarrow> q_row list tensor" where
  "forward n t = \<lparr>data = map (net (params n)) (data t), requires_grad = True\<rparr>"

text \<open>
  \<^verbatim>\<open>def act(self, state):
    state_t = torch.as_tensor(state, dtype=torch.float32)
    q_values = self(state_t.unsqueeze(0))
    action = torch.argmax(q_values, dim=1).item()
    return action\<close>
\<close>

definition act :: "network \<Rightarrow> obs \<Rightarrow> action" where
  "act n state =
     (let state_t = as_tensor state;
          q_values = forward n (as_tensor [data state_t]);
          action = hd (map argmax (data q_values))
      in action)"

definition get_state_dict :: "network \<Rightarrow> state_dict" where
  \<comment> \<open>\<open>Module.state_dict()\<close>\<close>
  "get_state_dict n = params n"

definition load_state_dict :: "network \<Rightarrow> state_dict \<Rightarrow> network" where
  \<comment> \<open>copies the values into the module's own parameters; gradient buffers are untouched\<close>
  "load_state_dict n sd = n\<lparr>params := sd\<rparr>"

definition state_dict_add :: "state_dict \<Rightarrow> state_dict \<Rightarrow> state_dict" where
  "state_dict_add a b =
     \<lparr>weight0 = (\<lambda>j i. weight0 a j i + weight0 b j i), bias0 = (\<lambda>j. bias0 a j + bias0 b j),
      weight2 = (\<lambda>j i. weight2 a j i + weight2 b j i), bias2 = (\<lambda>j. bias2 a j + bias2 b j)\<rparr>"

definition accumulate_grad :: "network \<Rightarrow> state_dict \<Rightarrow> network" where
  \<comment> \<open>what \<open>backward()\<close> does to a leaf: set the buffer, or add to it\<close>
  "accumulate_grad n g =
     n\<lparr>grad := Some (case grad n of None \<Rightarrow> g | Some g0 \<Rightarrow> state_dict_add g0 g)\<rparr>"

definition zero_grad :: "network \<Rightarrow> network" where
  "zero_grad n = n\<lparr>grad := None\<rparr>"

subsection \<open>The random module\<close>

text \<open>
  The generator is the stream of the naturals it will produce. \<open>random()\<close> is a 53-bit
  fraction in \<open>[0, 1)\<close>; \<open>randbelow n\<close> is a value below \<open>n\<close>. \<open>sample\<close> raises
  \<open>ValueError\<close> when the sample is larger than the population, and otherwise selects
  from a pool without replacement: it takes the entry at a random position and moves the
  last entry of the pool into that position. (CPython does this for a population of up to
  277 entries at a sample of 32; for a larger one it draws positions and redraws those
  already chosen, a loop that this model does not have. The theorems below use of a
  sample only that the call returns a batch and the generator.)
\<close>

type_synonym rng = "nat stream"

definition random_random :: "rng \<Rightarrow> real \<times> rng" where
  "random_random r = (real (shd r mod 2 ^ 53) / 2 ^ 53, stl r)"

definition randbelow :: "nat \<Rightarrow> rng \<Rightarrow> nat \<times> rng" where
  "randbelow n r = (shd r mod n, stl r)"

fun sample_pool :: "'a list \<Rightarrow> nat \<Rightarrow> rng \<Rightarrow> 'a list \<times> rng" where
  "sample_pool pool 0 r = ([], r)"
| "sample_pool pool (Suc k) r =
     (let (j, r1) = randbelow (length pool) r;
          x = pool ! j;
          pool' = butlast (pool[j := last pool]);
          (xs, r2) = sample_pool pool' k r1
      in (x # xs, r2))"

definition random_sample :: "'a list \<Rightarrow> nat \<Rightarrow> rng \<Rightarrow> error + ('a list \<times> rng)" where
  "random_sample population k r =
     (if length population < k then Inl ValueError else Inr (sample_pool population k r))"

subsection \<open>Collaborators and the training state\<close>

text \<open>
  The environment, autograd and the optimiser are not code of the script. \<open>'e\<close> is
  the state of an environment object (with the generator of its action space), \<open>'o\<close>
  the internal state of the Adam optimiser. \<open>backward\<close> gives the gradient of the loss
  of a batch with respect to the parameters of the online and of the target network;
  \<open>adam_step\<close> takes the learning rate, the optimiser state, the parameters it was
  constructed over and their gradients.
\<close>

type_synonym experience = "obs \<times> action \<times> real \<times> bool \<times> obs"

record ('e, 'o) collaborators =
  env_reset :: "'e \<Rightarrow> obs \<times> 'e"
  env_step :: "'e \<Rightarrow> action \<Rightarrow> (obs \<times> real \<times> bool \<times> bool) \<times> 'e"
  action_space_sample :: "'e \<Rightarrow> action \<times> 'e"
  env_render :: "'e \<Rightarrow> 'e"
  gym_make_human :: "'e"
  backward :: "state_dict \<Rightarrow> state_dict \<Rightarrow> experience list \<Rightarrow> state_dict \<times> state_dict"
  adam_step :: "real \<Rightarrow> 'o \<Rightarrow> state_dict \<Rightarrow> state_dict \<Rightarrow> 'o \<times> state_dict"

text \<open>
  The globals of the script and its position in the loops: \<open>t_episode\<close> is the
  variable \<open>t\<close> of the outer loop, \<open>step\<close> the counter of the inner loop,
  \<open>epsilon\<close> is unbound (\<open>None\<close>) until the first iteration assigns it.
  \<open>Training\<close> is the inner loop of lines 85-171, \<open>Evaluating\<close> the \<open>while True\<close> loop
  of lines 164-170, \<open>Finished\<close> the end of the script.
\<close>

datatype mode = Training | Evaluating | Finished

record ('e, 'o) trainer =
  eps_count :: nat
  epsilon :: "real option"
  online_net :: network
  target_net :: network
  optimizer :: 'o
  replay_memory :: "experience deque"
  avg_window_steps :: "nat deque"
  t_episode :: nat
  step :: nat
  state :: obs
  env :: 'e
  rng :: rng
  mode :: mode

definition lr :: real where "lr = 5 / 10000"

subsection \<open>The training update (lines 107-148)\<close>

definition action_q_values :: "network \<Rightarrow> experience list \<Rightarrow> real list tensor" where
  "action_q_values online experiences =
     (let states_t = as_tensor (map (\<lambda>(s, a, rw, d, s1). s) experiences);
          actions_t = as_tensor (map (\<lambda>(s, a, rw, d, s1). a) experiences);
          q_values = forward online states_t
      in gather_dim1 q_values actions_t)"

definition target_q_values :: "network \<Rightarrow> experience list \<Rightarrow> real list tensor" where
  "target_q_values target experiences =
     (let new_states_t = as_tensor (map (\<lambda>(s, a, rw, d, s1). s1) experiences);
          target_q_output = forward target new_states_t
      in max_dim1 target_q_output)"

definition optimal_q_values :: "network \<Rightarrow> experience list \<Rightarrow> real list tensor" where
  "optimal_q_values target experiences =
     (let rewards_t = as_tensor (map (\<lambda>(s, a, rw, d, s1). rw) experiences);
          dones_t = as_tensor (map (\<lambda>(s, a, rw, d, s1). if d then 1 else 0) experiences)
      in tensor_add rewards_t
           (tensor_mul (scalar_mul gamma (scalar_rsub 1 dones_t))
              (target_q_values target experiences)))"

definition training_update ::
  "('e, 'o) collaborators \<Rightarrow> network \<Rightarrow> network \<Rightarrow> 'o \<Rightarrow> experience list \<Rightarrow>
   network \<times> network \<times> 'o" where
  "training_update K online target opt experiences =
     (let y = optimal_q_values target experiences;
          loss = smooth_l1_loss (action_q_values online experiences) y;
          online0 = zero_grad online;
          (g_online, g_target) = backward K (params online0) (params target) experiences;
          online1 = accumulate_grad online0 g_online;
          target1 = (if requires_grad y then accumulate_grad target g_target else target);
          (opt', p') = adam_step K lr opt (params online1) g_online
      in (online1\<lparr>params := p'\<rparr>, target1, opt'))"

definition learn :: "('e, 'o) collaborators \<Rightarrow> ('e, 'o) trainer \<Rightarrow> error + ('e, 'o) trainer" where
  "learn K s =
     (case random_sample (items (replay_memory s)) batch_size (rng s) of
        Inl err \<Rightarrow> Inl err
      | Inr (experiences, r') \<Rightarrow>
          (let (online', target', opt') =
                 training_update K (online_net s) (target_net s) (optimizer s) experiences
           in Inr (s\<lparr>online_net := online', target_net := target', optimizer := opt',
                     rng := r'\<rparr>)))"

subsection \<open>The control loop\<close>

text \<open>Lines 67-82: the globals, and the reset that opens the first episode.\<close>

definition init ::
  "('e, 'o) collaborators \<Rightarrow> state_dict \<Rightarrow> state_dict \<Rightarrow> 'o \<Rightarrow> 'e \<Rightarrow> rng \<Rightarrow> ('e, 'o) trainer" where
  "init K init_online init_target opt0 env0 rng0 =
     (let online = Network init_online;
          target = load_state_dict (Network init_target) (get_state_dict online);
          (st, e) = env_reset K env0
      in \<lparr>eps_count = 0, epsilon = None, online_net = online, target_net = target, optimizer = opt0,
          replay_memory = replay_memory_init, avg_window_steps = deque [] None,
          t_episode = 0, step = 0, state = st, env = e, rng = rng0, mode = Training\<rparr>)"

text \<open>Lines 90-95: the epsilon-greedy choice.\<close>

definition select_action ::
  "('e, 'o) collaborators \<Rightarrow> network \<Rightarrow> obs \<Rightarrow> real \<Rightarrow> 'e \<Rightarrow> rng \<Rightarrow> action \<times> 'e \<times> rng" where
  "select_action K online st eps e r =
     (let (u, r') = random_random r
      in if u < eps then (let (a, e') = action_space_sample K e in (a, e', r'))
         else (act online st, e, r'))"

text \<open>
  Lines 86-102: count the step, compute epsilon, act, and store the experience. The
  result is the value of \<open>done\<close> and the state after line 102.
\<close>

definition interact :: "('e, 'o) collaborators \<Rightarrow> ('e, 'o) trainer \<Rightarrow> bool \<times> ('e, 'o) trainer" where
  "interact K s =
     (let n = eps_count s + 1;
          eps = decay epsilon_start epsilon_end epsilon_decayrate (real n);
          (action, e1, r1) = select_action K (online_net s) (state s) eps (env s) (rng s);
          ((s1, reward, term, trunc), e2) = env_step K e1 action;
          done = (term \<or> trunc);
          experience = (state s, action, reward, done, s1)
      in (done,
          s\<lparr>eps_count := n, epsilon := Some eps, env := e2, rng := r1,
            replay_memory := append_deque (replay_memory s) experience, state := s1\<rparr>))"

text \<open>Lines 106-148: train on a sampled batch once the memory holds a batch.\<close>

definition learn_if_ready ::
  "('e, 'o) collaborators \<Rightarrow> ('e, 'o) trainer \<Rightarrow> error + ('e, 'o) trainer" where
  "learn_if_ready K s = (if batch_size \<le> len (replay_memory s) then learn K s else Inr s)"

text \<open>Lines 150-152: every 1000 steps, reset the target network.\<close>

definition sync_target :: "('e, 'o) trainer \<Rightarrow> ('e, 'o) trainer" where
  "sync_target s =
     (if eps_count s mod 1000 = 0
      then s\<lparr>target_net := load_state_dict (target_net s) (get_state_dict (online_net s))\<rparr>
      else s)"

text \<open>Lines 154-171, when \<open>done\<close> holds.\<close>

definition average :: "nat list \<Rightarrow> real" where
  "average xs = real (sum_list xs) / real (length xs)"

definition next_episode :: "('e, 'o) collaborators \<Rightarrow> ('e, 'o) trainer \<Rightarrow> ('e, 'o) trainer" where
  \<comment> \<open>\<open>break\<close>, then the next iteration of \<open>for t in range(1000)\<close>\<close>
  "next_episode K s =
     (if t_episode s + 1 < 1000
      then (let (st, e) = env_reset K (env s)
            in s\<lparr>t_episode := t_episode s + 1, step := 0, state := st, env := e\<rparr>)
      else s\<lparr>mode := Finished\<rparr>)"

definition end_episode :: "('e, 'o) collaborators \<Rightarrow> ('e, 'o) trainer \<Rightarrow> error + ('e, 'o) trainer" where
  "end_episode K s =
     (let w = append_deque (avg_window_steps s) (step s)
      in case (if 5 < len w then popleft w else Inr w) of
           Inl err \<Rightarrow> Inl err
         | Inr w' \<Rightarrow>
             (let avg_steps = average (items w');
                  s' = s\<lparr>avg_window_steps := w'\<rparr>
              in if 499 \<le> avg_steps
                 then (let (st, e) = env_reset K (gym_make_human K)
                       in Inr (s'\<lparr>env := e, state := st, mode := Evaluating\<rparr>))
                 else Inr (next_episode K s')))"

text \<open>One iteration of the inner loop, lines 86-171.\<close>

definition train_step :: "('e, 'o) collaborators \<Rightarrow> ('e, 'o) trainer \<Rightarrow> error + ('e, 'o) trainer" where
  "train_step K s =
     (let (done, sa) = interact K s
      in case learn_if_ready K sa of
           Inl err \<Rightarrow> Inl err
         | Inr sb \<Rightarrow>
             (let sc = sync_target sb
              in if done then end_episode K sc else Inr (sc\<lparr>step := step sc + 1\<rparr>)))"

text \<open>One iteration of the evaluation loop, lines 165-170.\<close>

definition eval_step :: "('e, 'o) collaborators \<Rightarrow> ('e, 'o) trainer \<Rightarrow> ('e, 'o) trainer" where
  "eval_step K s =
     (let action = act (online_net s) (state s);
          ((s1, reward, term, trunc), e1) = env_step K (env s) action;
          done = (term \<or> trunc);
          e2 = env_render K e1
      in if done then (let (st, e3) = env_reset K e2 in s\<lparr>state := st, env := e3\<rparr>)
         else s\<lparr>state := s1, env := e2\<rparr>)"

definition loop_step :: "('e, 'o) collaborators \<Rightarrow> ('e, 'o) trainer \<Rightarrow> error + ('e, 'o) trainer" where
  "loop_step K s =
     (case mode s of
        Training \<Rightarrow> train_step K s
      | Evaluating \<Rightarrow> Inr (eval_step K s)
      | Finished \<Rightarrow> Inr s)"

fun run :: "('e, 'o) collaborators \<Rightarrow> nat \<Rightarrow> ('e, 'o) trainer \<Rightarrow> error + ('e, 'o) trainer" where
  "run K 0 s = Inr s"
| "run K (Suc n) s = (case loop_step K s of Inl err \<Rightarrow> Inl err | Inr s' \<Rightarrow> run K n s')"

subsection \<open>Concrete inputs\<close>

text \<open>Parameter values and observations used to instantiate the theorems below.\<close>

definition zero_state_dict :: state_dict where
  "zero_state_dict =
     \<lparr>weight0 = (\<lambda>j i. 0), bias0 = (\<lambda>j. 0), weight2 = (\<lambda>j i. 0), bias2 = (\<lambda>j. 0)\<rparr>"

definition zero_obs :: obs where
  "zero_obs = (\<lambda>i. 0)"

text \<open>
  The float literals \<open>0.1\<close>, \<open>0.2\<close> and \<open>0.7\<close>. At step 0 the exponential is taken at
  zero only; \<open>any_exp\<close> stands for the library's values elsewhere.
\<close>

definition f64_0_1 :: float64 where
  "f64_0_1 = Finite 7205759403792794 (- 56)"

definition f64_0_2 :: float64 where
  "f64_0_2 = Finite 7205759403792794 (- 55)"

definition f64_0_7 :: float64 where
  "f64_0_7 = Finite 6305039478318694 (- 53)"

definition any_exp :: "float64 \<Rightarrow> float64" where
  "any_exp x = NaN"

text \<open>
  A deterministic environment: an episode answers \<open>done = False\<close> on its first 500
  steps and \<open>done = True\<close> on the next one, always with reward 1. Its state is the
  number of steps taken since the last reset. The other collaborators of \<open>mock\<close> return
  zero gradients and leave the parameters as they are.
\<close>

definition mock_reset :: "nat \<Rightarrow> obs \<times> nat" where
  "mock_reset e = (zero_obs, 0)"

definition mock_step :: "nat \<Rightarrow> action \<Rightarrow> (obs \<times> real \<times> bool \<times> bool) \<times> nat" where
  "mock_step e a = ((zero_obs, 1, False, 500 \<le> e), e + 1)"

definition mock_sample :: "nat \<Rightarrow> action \<times> nat" where
  "mock_sample e = (0, e)"

definition mock :: "(nat, unit) collaborators" where
  "mock = \<lparr>env_reset = mock_reset, env_step = mock_step, action_space_sample = mock_sample,
           env_render = (\<lambda>e. e), gym_make_human = 0,
           backward = (\<lambda>p q exps. (zero_state_dict, zero_state_dict)),
           adam_step = (\<lambda>rate opt p g. (opt, p))\<rparr>"

definition mock_init :: "(nat, unit) trainer" where
  "mock_init = init mock zero_state_dict zero_state_dict () 0 (sconst 0)"


definition mock_batch :: "experience list" where
  "mock_batch = [(zero_obs, 0, 1, False, zero_obs)]"

subsection \<open>Invariant of the schedule\<close>


subsection \<open>Facts about the bounded deque\<close>

lemma maxlen_append [simp]: "maxlen (append_deque d x) = maxlen d"
  by (simp add: append_deque_def Let_def split: option.splits)

lemma items_append_bounded:
  assumes "maxlen d = Some n" and "length (items d) \<le> n"
  shows "items (append_deque d x) = drop (length (items d) + 1 - n) (items d @ [x])"
proof (cases "length (items d) = n")
  case True
  with assms show ?thesis
    by (cases "items d") (simp_all add: append_deque_def Let_def)
next
  case False
  with assms have "length (items d) + 1 - n = 0" by simp
  with assms False show ?thesis
    by (simp add: append_deque_def Let_def)
qed

lemma maxlen_foldl_append [simp]: "maxlen (foldl append_deque d ts) = maxlen d"
  by (induction ts arbitrary: d) simp_all

lemma items_foldl_append:
  assumes "maxlen d = Some n" and "length (items d) \<le> n"
  shows "items (foldl append_deque d ts) = drop (length (items d) + length ts - n) (items d @ ts)"
  using assms
proof (induction ts rule: rev_induct)
  case Nil
  then show ?case by simp
next
  case (snoc t ts)
  let ?d = "foldl append_deque d ts"
  let ?k = "length (items d) + length ts - n"
  have m: "maxlen ?d = Some n" using snoc.prems by simp
  have ih: "items ?d = drop ?k (items d @ ts)"
    by (rule snoc.IH [OF snoc.prems])
  have le: "length (items ?d) \<le> n" by (simp add: ih)
  have "items (foldl append_deque d (ts @ [t])) = items (append_deque ?d t)" by simp
  also have "\<dots> = drop (length (items ?d) + 1 - n) (items ?d @ [t])"
    by (rule items_append_bounded [OF m le])
  also have "items ?d @ [t] = drop ?k (items d @ ts @ [t])"
    by (simp add: ih)
  also have "drop (length (items ?d) + 1 - n) (drop ?k (items d @ ts @ [t])) =
             drop (length (items ?d) + 1 - n + ?k) (items d @ ts @ [t])"
    by (simp only: drop_drop)
  also have "length (items ?d) + 1 - n + ?k = length (items d) + length (ts @ [t]) - n"
    using snoc.prems(2) by (simp add: ih)
  finally show ?case by simp
qed

lemma len_foldl_append_le:
  assumes "maxlen d = Some n" and "length (items d) \<le> n"
  shows "len (foldl append_deque d ts) \<le> n"
  using assms by (simp add: len_def items_foldl_append)

subsection \<open>Facts about binary64 rounding\<close>

lemma bit_length_eqI: "2 ^ k \<le> n \<Longrightarrow> n < 2 ^ Suc k \<Longrightarrow> bit_length n = Suc k"
proof (induction k arbitrary: n)
  case 0
  then have "n = 1" by simp
  then show ?case by (simp add: bit_length.simps)
next
  case (Suc k)
  then have "2 ^ k \<le> n div 2" and "n div 2 < 2 ^ Suc k" and "n \<noteq> 0"
    by auto
  from Suc.IH [OF this(1,2)] \<open>n \<noteq> 0\<close> show ?case
    by (subst bit_length.simps) simp
qed

lemma bit_length_Suc:
  "0 < n \<Longrightarrow> \<exists>l. bit_length n = Suc l \<and> 2 ^ l \<le> n \<and> n < 2 ^ Suc l"
proof (induction n rule: less_induct)
  case (less n)
  have b: "bit_length n = Suc (bit_length (n div 2))"
    using less.prems by (subst bit_length.simps) simp
  show ?case
  proof (cases "n div 2 = 0")
    case True
    with less.prems have "n = 1" by (cases n) auto
    then show ?thesis by (simp add: bit_length.simps)
  next
    case False
    then have "n div 2 < n" "0 < n div 2" using less.prems by auto
    from less.IH [OF this] obtain l where l: "bit_length (n div 2) = Suc l"
      "2 ^ l \<le> n div 2" "n div 2 < 2 ^ Suc l"
      by blast
    from l(2,3) have "2 ^ Suc l \<le> n" "n < 2 ^ Suc (Suc l)" by auto
    with b l(1) show ?thesis by simp
  qed
qed

lemma bit_length_le: "n < 2 ^ k \<Longrightarrow> bit_length n \<le> k"
proof (cases "n = 0")
  case True
  then show ?thesis by (simp add: bit_length.simps)
next
  case False
  assume k: "n < 2 ^ k"
  from False bit_length_Suc [of n] obtain l where l: "bit_length n = Suc l" "2 ^ l \<le> n"
    by auto
  from l(2) k have "(2::nat) ^ l < 2 ^ k" by (rule le_less_trans)
  then have "l < k" by simp
  with l show ?thesis by simp
qed

lemma bit_length_mult_pow: "0 < n \<Longrightarrow> bit_length (n * 2 ^ k) = bit_length n + k"
proof -
  assume n: "0 < n"
  from bit_length_Suc [OF n] obtain l where l: "bit_length n = Suc l" "2 ^ l \<le> n" "n < 2 ^ Suc l"
    by blast
  then have "2 ^ (l + k) \<le> n * 2 ^ k" "n * 2 ^ k < 2 ^ Suc (l + k)"
    by (simp_all add: power_add)
  from bit_length_eqI [OF this] l show ?thesis by simp
qed

lemma round_mag_scaled:
  assumes "0 < n" and "n < 2 ^ 53" and "- 1074 \<le> e" and "n < 2 ^ 52 \<Longrightarrow> e = - 1074"
  shows "round_mag (n * 2 ^ 52) (e - 52) = (n, e)"
proof -
  have bl: "bit_length (n * 2 ^ 52) = bit_length n + 52"
    by (rule bit_length_mult_pow [OF assms(1)])
  have e1: "max (e - 52 + int (bit_length n + 52) - 53) (- 1074) = e"
  proof (cases "n < 2 ^ 52")
    case True
    then have "bit_length n \<le> 52" by (rule bit_length_le)
    with assms(4) [OF True] show ?thesis by simp
  next
    case False
    then have "2 ^ 52 \<le> n" by simp
    from bit_length_eqI [OF this] assms(2) have "bit_length n = 53" by simp
    with assms(3) show ?thesis by simp
  qed
  have d: "nat (e - (e - 52)) = 52" by simp
  have ne: "n \<noteq> 2 ^ 53" using assms(2) by simp
  have le: "\<not> e \<le> e - 52" by simp
  show ?thesis
    unfolding round_mag_def bl e1 Let_def d
    using ne le by simp
qed

lemma round64_scaled:
  assumes "is_double (Finite m e)"
  shows "round64 (m * 2 ^ 52) (e - 52) = Finite m e"
proof (cases "m = 0")
  case True
  with assms show ?thesis by (simp add: round64_def is_double_def)
next
  case False
  let ?n = "nat \<bar>m\<bar>"
  have n: "0 < ?n" using False by simp
  have a: "nat \<bar>m * 2 ^ 52\<bar> = ?n * 2 ^ 52"
    by (simp add: abs_mult nat_mult_distrib)
  from assms have lt: "?n < 2 ^ 53" and e: "- 1074 \<le> e" "e \<le> 971"
    and sub: "?n < 2 ^ 52 \<Longrightarrow> e = - 1074"
    by (auto simp: is_double_def)
  have r: "round_mag (nat \<bar>m * 2 ^ 52\<bar>) (e - 52) = (?n, e)"
    unfolding a by (rule round_mag_scaled [OF n lt e(1) sub])
  have s: "sgn (m * 2 ^ 52) * int ?n = m"
    by (simp add: sgn_mult mult_sgn_abs)
  have nz: "m * 2 ^ 52 \<noteq> 0" using False by simp
  show ?thesis
    unfolding round64_def r using nz e(2) s by simp
qed

lemma round_mag_double:
  assumes "0 < n" and "round_mag n e = (q, e2)"
  shows "q < 2 ^ 53 \<and> - 1074 \<le> e2 \<and> (q < 2 ^ 52 \<longrightarrow> e2 = - 1074)"
proof -
  from bit_length_Suc [OF assms(1)] obtain l where l: "bit_length n = Suc l" "2 ^ l \<le> n"
    "n < 2 ^ Suc l"
    by blast
  define e1 where "e1 = max (e + int (Suc l) - 53) (- 1074)"
  have e1_ge: "- 1074 \<le> e1" "e + int (Suc l) - 53 \<le> e1" by (simp_all add: e1_def)
  have rm: "round_mag n e =
     (let d = nat (e1 - e);
          q0 = (if e1 \<le> e then n * 2 ^ nat (e - e1) else n div 2 ^ d);
          rem = (if e1 \<le> e then 0 else n mod 2 ^ d);
          half = (if e1 \<le> e then 1 else 2 ^ (d - 1));
          q1 = (if half < rem \<or> (rem = half \<and> odd q0) then q0 + 1 else q0)
      in if q1 = 2 ^ 53 then (2 ^ 52, e1 + 1) else (q1, e1))"
    by (simp only: round_mag_def l(1) e1_def Let_def)
  show ?thesis
  proof (cases "e1 \<le> e")
    case True
    define k where "k = nat (e - e1)"
    have r: "round_mag n e = (n * 2 ^ k, e1) \<or> (n * 2 ^ k = 2 ^ 53 \<and> round_mag n e = (2 ^ 52, e1 + 1))"
      using True by (simp add: rm k_def Let_def)
    have "Suc l + k \<le> 53" using e1_ge(2) True by (simp add: k_def)
    then have "(2::nat) ^ (Suc l + k) \<le> 2 ^ 53" by (rule power_increasing) simp
    moreover have "n * 2 ^ k < 2 ^ (Suc l + k)"
      using l(3) by (simp add: power_add)
    ultimately have lt: "n * 2 ^ k < 2 ^ 53" by simp
    with r assms(2) have q: "q = n * 2 ^ k" "e2 = e1" by auto
    have "e1 = - 1074" if "q < 2 ^ 52"
    proof (rule ccontr)
      assume "e1 \<noteq> - 1074"
      then have "e1 = e + int (Suc l) - 53" by (simp add: e1_def max_def split: if_splits)
      then have "l + k = 52" using True by (simp add: k_def)
      then have "(2::nat) ^ 52 = 2 ^ l * 2 ^ k" by (simp add: power_add [symmetric])
      also have "\<dots> \<le> n * 2 ^ k" using l(2) by simp
      finally show False using that q by simp
    qed
    with lt q e1_ge(1) show ?thesis by simp
  next
    case False
    define d where "d = nat (e1 - e)"
    have d: "0 < d" using False by (simp add: d_def)
    define q0 where "q0 = n div 2 ^ d"
    have "round_mag n e = (q0, e1) \<or> round_mag n e = (q0 + 1, e1) \<or>
          round_mag n e = (2 ^ 52, e1 + 1)"
      using False by (simp add: rm d_def q0_def Let_def)
    moreover have r53: "round_mag n e \<noteq> (2 ^ 53, e1)"
      using False by (simp add: rm d_def q0_def Let_def)
    have "Suc l \<le> 53 + d" using e1_ge(2) False by (simp add: d_def)
    then have "(2::nat) ^ Suc l \<le> 2 ^ (53 + d)" by (rule power_increasing) simp
    with l(3) have "n < 2 ^ 53 * 2 ^ d" by (simp add: power_add)
    then have q0_lt: "q0 < 2 ^ 53"
      by (simp add: q0_def less_mult_imp_div_less)
    have q0_ge: "e1 = - 1074 \<or> 2 ^ 52 \<le> q0"
    proof (cases "e1 = - 1074")
      case True
      then show ?thesis by simp
    next
      case ne: False
      then have "e1 = e + int (Suc l) - 53" by (simp add: e1_def max_def split: if_splits)
      then have "l = 52 + d" using False by (simp add: d_def)
      then have "(2::nat) ^ 52 * 2 ^ d \<le> n" using l(2) by (simp add: power_add)
      then have "2 ^ 52 * 2 ^ d div 2 ^ d \<le> n div 2 ^ d" by (rule div_le_mono)
      then show ?thesis by (simp add: q0_def)
    qed
    ultimately show ?thesis
      using assms(2) q0_lt q0_ge e1_ge(1) r53 by auto
  qed
qed

lemma round64_is_double: "is_double (round64 m e)"
proof (cases "m = 0")
  case True
  then show ?thesis by (simp add: round64_def is_double_def)
next
  case False
  then have n: "0 < nat \<bar>m\<bar>" by simp
  obtain q e2 where r: "round_mag (nat \<bar>m\<bar>) e = (q, e2)" by (cases "round_mag (nat \<bar>m\<bar>) e")
  from round_mag_double [OF n r] have "int q < 2 ^ 53" "- 1074 \<le> e2" "q < 2 ^ 52 \<Longrightarrow> e2 = - 1074"
    by auto
  moreover have "\<bar>sgn m * int q\<bar> = int q" using False by (simp add: abs_mult)
  ultimately show ?thesis
    using False r by (auto simp: round64_def is_double_def)
qed

lemma bit_length_1: "bit_length (Suc 0) = 1"
  using bit_length_eqI [of 0 1] by simp

lemma float_of_int_0: "float_of_int 0 = Finite 0 (- 1074)"
  by (simp add: float_of_int_def round64_def)

lemma float_of_int_1: "float_of_int 1 = Finite (2 ^ 52) (- 52)"
  by (simp add: float_of_int_def round64_def round_mag_def bit_length_1 Let_def)

lemma float_of_int_m1: "float_of_int (- 1) = Finite (- (2 ^ 52)) (- 52)"
  by (simp add: float_of_int_def round64_def round_mag_def bit_length_1 Let_def)

lemma is_double_fadd: "is_double (fadd x y)"
  by (cases x; cases y) (simp_all add: round64_is_double Let_def, simp_all add: is_double_def)

lemma is_double_fsub: "is_double (fsub x y)"
  by (simp add: fsub_def is_double_fadd)

lemma fmul_one: "is_double x \<Longrightarrow> fmul x (float_of_int 1) = x"
proof (cases x)
  case (Finite m e)
  assume "is_double x"
  with Finite have "is_double (Finite m e)" by simp
  from round64_scaled [OF this, simplified] Finite show ?thesis
    by (simp add: float_of_int_1)
qed (simp_all add: float_of_int_1)

lemma fmul_minus_one:
  assumes "is_double (Finite m e)"
  shows "fmul (float_of_int (- 1)) (Finite m e) = Finite (- m) e"
proof -
  from assms have "is_double (Finite (- m) e)" by (simp add: is_double_def)
  from round64_scaled [OF this, simplified] show ?thesis
    by (simp add: float_of_int_m1 mult.commute)
qed

lemma fmul_zero: "fmul (Finite m e) (float_of_int 0) = float_of_int 0"
  by (simp add: float_of_int_0 round64_def)

lemma decay_f64_step0:
  assumes "is_double (Finite m k)"
  shows "decay_f64 ex s e (Finite m k) (float_of_int 0) = fadd e (fsub s e)"
proof -
  have "fmul (fmul (float_of_int (- 1)) (Finite m k)) (float_of_int 0) = float_of_int 0"
    by (simp only: fmul_minus_one [OF assms] fmul_zero)
  moreover have "np_exp ex (float_of_int 0) = float_of_int 1"
    by (simp add: float_of_int_0)
  ultimately show ?thesis
    by (simp add: decay_f64_def fmul_one [OF is_double_fsub])
qed

subsection \<open>The schedule at step 0\<close>

lemma bit_length_values:
  "bit_length 43234556422756758 = 56"
  "bit_length 900719925474099 = 50"
  "bit_length 4607074332408960516 = 62"
  "bit_length 4611686018427387900 = 62"
  using bit_length_eqI [of 55 43234556422756758] bit_length_eqI [of 49 900719925474099]
    bit_length_eqI [of 61 4607074332408960516] bit_length_eqI [of 61 4611686018427387900]
  by simp_all

text \<open>A tie, rounded to the even mantissa: \<open>0.1 + 0.2\<close> is \<open>0.30000000000000004\<close>.\<close>

lemma fadd_0_1_0_2: "fadd f64_0_1 f64_0_2 = Finite 5404319552844596 (- 54)"
proof -
  have "bit_length 21617278211378382 = 55"
    using bit_length_eqI [of 54 21617278211378382] by simp
  then show ?thesis
    by (simp add: f64_0_1_def f64_0_2_def Let_def round64_def round_mag_def)
qed

lemma fsub_0_1_0_7: "fsub f64_0_1 f64_0_7 = Finite (- 5404319552844595) (- 53)"
  by (simp add: fsub_def f64_0_1_def f64_0_7_def Let_def round64_def round_mag_def
      bit_length_values)

lemma fadd_0_7: "fadd f64_0_7 (Finite (- 5404319552844595) (- 53)) = Finite 7205759403792792 (- 56)"
  by (simp add: f64_0_7_def Let_def round64_def round_mag_def bit_length_values)

lemma fsub_1_end: "fsub (float_of_int 1) epsilon_end_f64 = Finite 8998192055486251 (- 53)"
  by (simp add: fsub_def float_of_int_1 epsilon_end_f64_def Let_def round64_def round_mag_def
      bit_length_values)

lemma fadd_end: "fadd epsilon_end_f64 (Finite 8998192055486251 (- 53)) = float_of_int 1"
  by (simp add: float_of_int_1 epsilon_end_f64_def Let_def round64_def round_mag_def
      bit_length_values)

lemma is_double_constants:
  "is_double f64_0_1" "is_double f64_0_7" "is_double epsilon_end_f64"
  "is_double epsilon_decayrate_f64" "is_double (float_of_int 1)"
  by (simp_all add: is_double_def f64_0_1_def f64_0_7_def epsilon_end_f64_def
      epsilon_decayrate_f64_def float_of_int_1)

text \<open>Each literal is within half a unit in the last place of its decimal.\<close>

lemma literal_values:
  "valof f64_0_1 = Some (7205759403792794 / 2 ^ 56)"
  "\<bar>7205759403792794 / 2 ^ 56 - 1 / 10\<bar> \<le> (1 / 2 ^ 57 :: real)"
  "valof f64_0_7 = Some (6305039478318694 / 2 ^ 53)"
  "\<bar>6305039478318694 / 2 ^ 53 - 7 / 10\<bar> \<le> (1 / 2 ^ 54 :: real)"
  "valof epsilon_end_f64 = Some (4611686018427388 / 2 ^ 62)"
  "\<bar>4611686018427388 / 2 ^ 62 - 1 / 1000\<bar> \<le> (1 / 2 ^ 63 :: real)"
  "valof epsilon_decayrate_f64 = Some (6917529027641082 / 2 ^ 61)"
  "\<bar>6917529027641082 / 2 ^ 61 - 3 / 1000\<bar> \<le> (1 / 2 ^ 62 :: real)"
  by (simp_all add: valof_def f64_0_1_def f64_0_7_def epsilon_end_f64_def epsilon_decayrate_f64_def
      powr_neg_numeral)

text \<open>
  C5 as stated says that \<open>decay(s, e, r, 0) == s\<close> for all \<open>s\<close>, \<open>e\<close> and \<open>r\<close>. In
  binary64, \<open>decay(0.1, 0.7, 0.003, 0)\<close> is \<open>7205759403792792 * 2 ^ -56\<close>, that is
  \<open>0.09999999999999998\<close>, and not \<open>0.1\<close>.
\<close>

theorem decay_step0_not_start:
  "decay_f64 any_exp f64_0_1 f64_0_7 epsilon_decayrate_f64 (float_of_int 0) =
     Finite 7205759403792792 (- 56) \<and>
   \<not> float_eq (decay_f64 any_exp f64_0_1 f64_0_7 epsilon_decayrate_f64 (float_of_int 0)) f64_0_1"
proof -
  have d: "is_double (Finite 6917529027641082 (- 61))"
    using is_double_constants(4) by (simp add: epsilon_decayrate_f64_def)
  have "decay_f64 any_exp f64_0_1 f64_0_7 epsilon_decayrate_f64 (float_of_int 0) =
          Finite 7205759403792792 (- 56)"
    unfolding epsilon_decayrate_f64_def decay_f64_step0 [OF d] fsub_0_1_0_7 fadd_0_7 ..
  then show ?thesis by (simp add: float_eq_def f64_0_1_def)
qed

text \<open>
  C5, as the code has it. The epsilon schedule is the function
  \<open>decay(start, end, rate, step) = end + (start - end) * exp(-1 * rate * step)\<close> of its four
  arguments alone, each operation rounded to binary64. At step 0 and a finite rate it
  returns the rounded sum of \<open>end\<close> and the rounded difference \<open>start - end\<close>. For the
  script's \<open>epsilon_start = 1\<close> and \<open>epsilon_end = 0.001\<close> that is \<open>start\<close>.
\<close>

theorem decay_f64_schedule:
  "decay_f64 ex s e r n =
     fadd e (fmul (fsub s e) (np_exp ex (fmul (fmul (float_of_int (- 1)) r) n))) \<and>
   (is_double (Finite m k) \<longrightarrow>
      decay_f64 ex s e (Finite m k) (float_of_int 0) = fadd e (fsub s e)) \<and>
   float_eq (decay_f64 ex (float_of_int 1) epsilon_end_f64 epsilon_decayrate_f64 (float_of_int 0))
     (float_of_int 1)"
proof -
  have d: "is_double (Finite 6917529027641082 (- 61))"
    using is_double_constants(4) by (simp add: epsilon_decayrate_f64_def)
  have "decay_f64 ex (float_of_int 1) epsilon_end_f64 epsilon_decayrate_f64 (float_of_int 0) =
          float_of_int 1"
    unfolding epsilon_decayrate_f64_def decay_f64_step0 [OF d] fsub_1_end fadd_end ..
  then show ?thesis
    by (simp add: decay_f64_step0 float_eq_def float_of_int_1) (simp add: decay_f64_def)
qed

theorem decay_f64_schedule_witness:
  "is_double (Finite 6917529027641082 (- 61)) \<and>
   decay_f64 any_exp f64_0_1 f64_0_7 (Finite 6917529027641082 (- 61)) (float_of_int 0) =
     fadd f64_0_7 (fsub f64_0_1 f64_0_7)"
proof -
  have d: "is_double (Finite 6917529027641082 (- 61))"
    using is_double_constants(4) by (simp add: epsilon_decayrate_f64_def)
  with decay_f64_schedule [of any_exp f64_0_1 f64_0_7 "Finite 6917529027641082 (- 61)"
      "float_of_int 0" 6917529027641082 "- 61"]
  show ?thesis by blast
qed

subsection \<open>The replay buffer\<close>

text \<open>
  C2. After \<open>C + k\<close> appends to the empty replay buffer of capacity \<open>C = 50000\<close>, the
  buffer has size \<open>C\<close> and holds exactly the last \<open>C\<close> appended transitions in their
  order (the oldest \<open>k\<close> are gone), and after every prefix of the appends the size is at
  most \<open>C\<close>.
\<close>

theorem replay_memory_capacity:
  assumes "length ts = replay_capacity + k"
  shows "replay_capacity = 50000 \<and>
         items (foldl append_deque replay_memory_init ts) = drop k ts \<and>
         len (foldl append_deque replay_memory_init ts) = replay_capacity \<and>
         (\<forall>n\<le>length ts. len (foldl append_deque replay_memory_init (take n ts)) \<le> replay_capacity)"
proof -
  have m: "maxlen (replay_memory_init :: 'a deque) = Some replay_capacity"
    by (simp add: replay_memory_init_def deque_def)
  have e: "items (replay_memory_init :: 'a deque) = []"
    by (simp add: replay_memory_init_def deque_def)
  have le: "length (items (replay_memory_init :: 'a deque)) \<le> replay_capacity"
    by (simp add: e)
  have i: "items (foldl append_deque replay_memory_init ts) = drop k ts"
    using assms by (simp add: items_foldl_append [OF m le] e)
  have l: "len (foldl append_deque replay_memory_init ts) = replay_capacity"
    using assms by (simp add: len_def i)
  have p: "len (foldl append_deque replay_memory_init us) \<le> replay_capacity" for us :: "'a list"
    by (rule len_foldl_append_le [OF m le])
  show ?thesis
    using i l p by (simp add: replay_capacity_def)
qed

theorem replay_memory_capacity_witness:
  "length [0..<50001] = replay_capacity + 1 \<and>
   items (foldl append_deque replay_memory_init [0..<50001]) = drop 1 [0..<50001] \<and>
   len (foldl append_deque replay_memory_init [0..<50001]) = replay_capacity"
proof -
  have h: "length [0..<50001] = replay_capacity + 1"
    by (simp add: replay_capacity_def)
  from replay_memory_capacity [OF h] h show ?thesis
    by blast
qed

subsection \<open>Facts about the action type and the network\<close>

lemma UNIV_action: "(UNIV :: action set) = {0, 1}"
proof -
  have "card {0, 1 :: action} = card (UNIV :: action set)" by simp
  moreover have "finite (UNIV :: action set)" by simp
  ultimately show ?thesis
    by (metis card_subset_eq subset_UNIV)
qed

lemma action_cases: "(a :: action) = 0 \<or> a = 1"
  using UNIV_action by blast

lemma zero_less_one_action: "(0 :: action) < 1"
  by (simp add: less_bit0_def zero_bit0_def one_bit0_def Abs_bit0_inverse)

lemma zero_le_action: "(0 :: action) \<le> a"
  using action_cases [of a] zero_less_one_action by auto

lemma argmax_two: "argmax q = (if q 0 < q 1 then 1 else 0)"
  by (simp add: argmax_def)

lemma argmax_is_max: "q a \<le> q (argmax q)"
  using action_cases [of a] by (auto simp: argmax_two)

lemma argmax_is_first: "q a = q (argmax q) \<Longrightarrow> argmax q \<le> a"
  using action_cases [of a] by (auto simp: argmax_two zero_le_action)

lemma Max_range_q_row: "Max (range (q :: q_row)) = max (q 0) (q 1)"
  by (simp add: UNIV_action max.commute)

lemma act_eq: "act n x = argmax (net (params n) x)"
  by (simp add: act_def forward_def as_tensor_def)

lemma forward_single: "data (forward n (as_tensor [x])) = [net (params n) x]"
  by (simp add: forward_def as_tensor_def)

lemma net_zero_state_dict: "net (zero_state_dict\<lparr>bias2 := b\<rparr>) x = b"
  by (simp add: net_def linear_def zero_state_dict_def)

text \<open>
  C8. The output of the network on a state is the row \<open>net (params n) x\<close>. \<open>act\<close>
  returns an action whose value is maximal, and no action with that same maximal value
  has a lower index; so when the two values are tied it returns action 0.
\<close>

theorem act_greedy_first_index:
  "data (forward n (as_tensor [x])) = [net (params n) x] \<and>
   (\<forall>a. net (params n) x a \<le> net (params n) x (act n x)) \<and>
   (\<forall>a. net (params n) x a = net (params n) x (act n x) \<longrightarrow> act n x \<le> a) \<and>
   (net (params n) x 0 = net (params n) x 1 \<longrightarrow> act n x = 0)"
  by (simp add: forward_single act_eq argmax_is_max argmax_is_first) (simp add: argmax_two)

theorem act_greedy_first_index_witness:
  "net (params (Network zero_state_dict)) zero_obs 0 =
     net (params (Network zero_state_dict)) zero_obs 1 \<and>
   act (Network zero_state_dict) zero_obs = 0"
  using act_greedy_first_index [of "Network zero_state_dict" zero_obs]
  by (simp add: Network_def net_def linear_def zero_state_dict_def)

subsection \<open>The Bellman target\<close>

lemma data_optimal_q_values:
  "data (optimal_q_values target exps) =
     map (\<lambda>(s, a, rw, d, s1). rw + gamma * (1 - (if d then 1 else 0)) *
            Max (range (net (params target) s1))) exps"
  by (induction exps)
     (auto simp: optimal_q_values_def target_q_values_def tensor_add_def tensor_mul_def
        scalar_mul_def scalar_rsub_def max_dim1_def forward_def as_tensor_def Max_range_q_row
        Let_def)

text \<open>
  C1. The regression target \<open>y\<close> of a training update is \<open>optimal_q_values\<close> of the target
  network and the sampled batch. It has one entry per transition, and for the transition
  \<open>(s, a, rw, d, s1)\<close> at position \<open>i\<close> the entry is
  \<open>rw + gamma * (1 - done_flag) * max\<close>, where \<open>gamma = 0.99\<close>, \<open>done_flag\<close> is 1 when
  \<open>d\<close> holds and 0 otherwise, and \<open>max\<close> is the largest value the target network gives
  to an action in \<open>s1\<close>. So when \<open>d\<close> holds the entry is \<open>rw\<close>, whatever the target
  network says. (Over the reals.)
\<close>

theorem bellman_target:
  "gamma = 99 / 100 \<and>
   length (data (optimal_q_values target exps)) = length exps \<and>
   (\<forall>i<length exps.
      case exps ! i of (s, a, rw, d, s1) \<Rightarrow>
        data (forward target (as_tensor [s1])) = [net (params target) s1] \<and>
        data (optimal_q_values target exps) ! i =
          rw + gamma * (1 - (if d then 1 else 0)) * Max (range (net (params target) s1)) \<and>
        (d \<longrightarrow> data (optimal_q_values target exps) ! i = rw))"
  by (auto simp: data_optimal_q_values gamma_def forward_single split: prod.splits)

theorem bellman_target_witness:
  "Max (range (net (params (Network (zero_state_dict\<lparr>bias2 := (\<lambda>a. 10)\<rparr>))) zero_obs)) = 10 \<and>
   data (optimal_q_values (Network (zero_state_dict\<lparr>bias2 := (\<lambda>a. 10)\<rparr>))
           [(zero_obs, 0, 1, True, zero_obs)]) ! 0 = 1"
  using bellman_target [of "Network (zero_state_dict\<lparr>bias2 := (\<lambda>a. 10)\<rparr>)"
      "[(zero_obs, 0, 1, True, zero_obs)]"]
  by (simp add: Network_def net_zero_state_dict)

subsection \<open>The training update and the sampling guard\<close>

lemma training_update_params_target:
  "training_update K online target opt exps = (online', target', opt') \<Longrightarrow>
   params target' = params target"
  by (auto simp: training_update_def Let_def accumulate_grad_def split: prod.splits if_splits)

lemma training_update_params_online:
  "training_update K online target opt exps = (online', target', opt') \<Longrightarrow>
   params online' =
     snd (adam_step K lr opt (params online)
            (fst (backward K (params online) (params target) exps)))"
  by (auto simp: training_update_def Let_def accumulate_grad_def zero_grad_def split: prod.splits if_splits)

lemma requires_grad_optimal_q_values: "requires_grad (optimal_q_values target exps)"
  by (simp add: optimal_q_values_def target_q_values_def tensor_add_def tensor_mul_def
      max_dim1_def forward_def Let_def)

lemma random_sample_Inr:
  "k \<le> length population \<Longrightarrow> \<exists>res r'. random_sample population k r = Inr (res, r')"
  by (simp add: random_sample_def)

lemma learn_Inr:
  assumes "batch_size \<le> len (replay_memory s)"
  shows "\<exists>s'. learn K s = Inr s'"
proof -
  obtain res r' where "random_sample (items (replay_memory s)) batch_size (rng s) = Inr (res, r')"
    using random_sample_Inr assms unfolding len_def by blast
  then show ?thesis
    by (simp add: learn_def Let_def split: prod.splits)
qed

lemma learn_frame:
  assumes "learn K s = Inr s'"
  shows "eps_count s' = eps_count s \<and> epsilon s' = epsilon s \<and>
         replay_memory s' = replay_memory s \<and> avg_window_steps s' = avg_window_steps s \<and>
         t_episode s' = t_episode s \<and> step s' = step s \<and> state s' = state s \<and>
         env s' = env s \<and> mode s' = mode s \<and>
         params (target_net s') = params (target_net s)"
  using assms
  by (auto simp: learn_def Let_def split: sum.splits prod.splits dest: training_update_params_target)

lemma learn_if_ready_Inr: "\<exists>s'. learn_if_ready K s = Inr s'"
  using learn_Inr [of s K] by (simp add: learn_if_ready_def)

lemma learn_if_ready_frame:
  assumes "learn_if_ready K s = Inr s'"
  shows "eps_count s' = eps_count s \<and> epsilon s' = epsilon s \<and>
         replay_memory s' = replay_memory s \<and> avg_window_steps s' = avg_window_steps s \<and>
         t_episode s' = t_episode s \<and> step s' = step s \<and> state s' = state s \<and>
         env s' = env s \<and> mode s' = mode s \<and>
         params (target_net s') = params (target_net s)"
  using assms learn_frame [of K s s']
  by (auto simp: learn_if_ready_def split: if_splits)

lemma sync_target_frame:
  "eps_count (sync_target s) = eps_count s \<and> epsilon (sync_target s) = epsilon s \<and>
   replay_memory (sync_target s) = replay_memory s \<and>
   avg_window_steps (sync_target s) = avg_window_steps s \<and>
   t_episode (sync_target s) = t_episode s \<and> step (sync_target s) = step s \<and>
   state (sync_target s) = state s \<and> env (sync_target s) = env s \<and>
   mode (sync_target s) = mode s \<and> online_net (sync_target s) = online_net s \<and>
   optimizer (sync_target s) = optimizer s \<and> rng (sync_target s) = rng s"
  by (simp add: sync_target_def)

lemma popleft_Inr: "items w \<noteq> [] \<Longrightarrow> \<exists>w'. popleft w = Inr w' \<and> items w' = tl (items w)"
  by (cases "items w") (simp_all add: popleft_def)

lemma end_episode_Inr: "\<exists>s'. end_episode K s = Inr s'"
proof -
  let ?w = "append_deque (avg_window_steps s) (step s)"
  show ?thesis
  proof (cases "5 < len ?w")
    case True
    then have "items ?w \<noteq> []" by (auto simp: len_def)
    then obtain w' where "popleft ?w = Inr w'" using popleft_Inr by blast
    with True show ?thesis
      by (simp add: end_episode_def Let_def split: prod.splits)
  next
    case False
    then show ?thesis
      by (simp add: end_episode_def Let_def split: prod.splits)
  qed
qed

lemma train_step_Inr: "\<exists>s'. train_step K s = Inr s'"
proof -
  obtain d sa where i: "interact K s = (d, sa)" by (cases "interact K s")
  obtain sb where l: "learn_if_ready K sa = Inr sb" using learn_if_ready_Inr by blast
  show ?thesis
    using i l end_episode_Inr [of K "sync_target sb"]
    by (simp add: train_step_def Let_def)
qed


subsection \<open>Frames of the parts of an iteration\<close>

lemma interact_frame:
  assumes "interact K s = (d, sa)"
  shows "eps_count sa = eps_count s + 1 \<and>
         epsilon sa = Some (decay epsilon_start epsilon_end epsilon_decayrate (real (eps_count s + 1))) \<and>
         online_net sa = online_net s \<and> target_net sa = target_net s \<and>
         optimizer sa = optimizer s \<and> avg_window_steps sa = avg_window_steps s \<and>
         t_episode sa = t_episode s \<and> step sa = step s \<and> mode sa = mode s"
  using assms
  by (auto simp: interact_def Let_def split: prod.splits)

lemma next_episode_frame:
  "eps_count (next_episode K s) = eps_count s \<and> epsilon (next_episode K s) = epsilon s \<and>
   online_net (next_episode K s) = online_net s \<and> target_net (next_episode K s) = target_net s \<and>
   optimizer (next_episode K s) = optimizer s \<and> replay_memory (next_episode K s) = replay_memory s \<and>
   avg_window_steps (next_episode K s) = avg_window_steps s \<and> rng (next_episode K s) = rng s"
  by (simp add: next_episode_def Let_def split: prod.splits)


lemma end_episode_frame:
  assumes "end_episode K s = Inr s'"
  shows "eps_count s' = eps_count s \<and> epsilon s' = epsilon s \<and>
         online_net s' = online_net s \<and> target_net s' = target_net s \<and>
         optimizer s' = optimizer s \<and> replay_memory s' = replay_memory s \<and> rng s' = rng s"
  using assms
  by (auto simp: end_episode_def Let_def next_episode_frame split: sum.splits prod.splits if_splits)

lemma eval_step_frame:
  "eps_count (eval_step K s) = eps_count s \<and> epsilon (eval_step K s) = epsilon s \<and>
   online_net (eval_step K s) = online_net s \<and> target_net (eval_step K s) = target_net s \<and>
   optimizer (eval_step K s) = optimizer s \<and> replay_memory (eval_step K s) = replay_memory s \<and>
   avg_window_steps (eval_step K s) = avg_window_steps s \<and> rng (eval_step K s) = rng s \<and>
   t_episode (eval_step K s) = t_episode s \<and> step (eval_step K s) = step s \<and>
   mode (eval_step K s) = mode s"
  by (simp add: eval_step_def Let_def split: prod.splits)


text \<open>Decomposition of a training iteration.\<close>

lemma train_step_decompose:
  assumes "train_step K s = Inr s'"
  shows "\<exists>d sa sb. interact K s = (d, sa) \<and> learn_if_ready K sa = Inr sb \<and>
           (d \<longrightarrow> end_episode K (sync_target sb) = Inr s') \<and>
           (\<not> d \<longrightarrow> s' = (sync_target sb)\<lparr>step := step (sync_target sb) + 1\<rparr>)"
proof -
  obtain d sa where i: "interact K s = (d, sa)" by (cases "interact K s")
  obtain sb where l: "learn_if_ready K sa = Inr sb" using learn_if_ready_Inr by blast
  show ?thesis
    using assms i l
    by (auto simp: train_step_def Let_def split: if_splits)
qed

lemma train_step_eps_count:
  assumes "train_step K s = Inr s'"
  shows "eps_count s' = eps_count s + 1 \<and>
         epsilon s' = Some (decay epsilon_start epsilon_end epsilon_decayrate (real (eps_count s + 1)))"
proof -
  obtain d sa sb where i: "interact K s = (d, sa)" and l: "learn_if_ready K sa = Inr sb"
    and e: "d \<Longrightarrow> end_episode K (sync_target sb) = Inr s'"
    and n: "\<not> d \<Longrightarrow> s' = (sync_target sb)\<lparr>step := step (sync_target sb) + 1\<rparr>"
    using train_step_decompose [OF assms] by blast
  note fi = interact_frame [OF i] and fl = learn_if_ready_frame [OF l]
    and fs = sync_target_frame [of sb]
  show ?thesis
  proof (cases d)
    case True
    from end_episode_frame [OF e [OF True]] fi fl fs show ?thesis by simp
  next
    case False
    from n [OF False] fi fl fs show ?thesis by simp
  qed
qed

lemma train_step_sync:
  assumes "train_step K s = Inr s'" and "eps_count s' mod 1000 = 0"
  shows "params (target_net s') = params (online_net s')"
proof -
  obtain d sa sb where i: "interact K s = (d, sa)" and l: "learn_if_ready K sa = Inr sb"
    and e: "d \<Longrightarrow> end_episode K (sync_target sb) = Inr s'"
    and n: "\<not> d \<Longrightarrow> s' = (sync_target sb)\<lparr>step := step (sync_target sb) + 1\<rparr>"
    using train_step_decompose [OF assms(1)] by blast
  note fi = interact_frame [OF i] and fl = learn_if_ready_frame [OF l]
  have c: "eps_count sb = eps_count s'"
    using train_step_eps_count [OF assms(1)] fi fl by simp
  have "params (target_net (sync_target sb)) = params (online_net (sync_target sb))"
    using assms(2) c by (simp add: sync_target_def load_state_dict_def get_state_dict_def)
  moreover have "target_net s' = target_net (sync_target sb) \<and> online_net s' = online_net (sync_target sb)"
  proof (cases d)
    case True
    from end_episode_frame [OF e [OF True]] show ?thesis by simp
  next
    case False
    from n [OF False] show ?thesis by simp
  qed
  ultimately show ?thesis by simp
qed

lemma init_params:
  "params (online_net (init K p1 p2 opt0 env0 rng0)) = p1 \<and>
   params (target_net (init K p1 p2 opt0 env0 rng0)) = p1"
  by (simp add: init_def Let_def Network_def load_state_dict_def get_state_dict_def split: prod.splits)


subsection \<open>Synchronisation and the training update\<close>

lemma forward_params: "params a = params b \<Longrightarrow> forward a t = forward b t"
  by (simp add: forward_def)

text \<open>
  C4. Right after initialisation the parameters of the target network are those of the
  online network, and so are they at the end of every iteration whose step counter is a
  multiple of 1000. The copy is exact: the two networks then give the same output on
  every batch of states.
\<close>

theorem target_sync_exact:
  "params (target_net (init K p1 p2 opt0 env0 rng0)) =
     params (online_net (init K p1 p2 opt0 env0 rng0)) \<and>
   (\<forall>t. forward (target_net (init K p1 p2 opt0 env0 rng0)) t =
        forward (online_net (init K p1 p2 opt0 env0 rng0)) t) \<and>
   (train_step K s = Inr s' \<and> eps_count s' mod 1000 = 0 \<longrightarrow>
      params (target_net s') = params (online_net s') \<and>
      (\<forall>t. forward (target_net s') t = forward (online_net s') t))"
  using train_step_sync [of K s s']
  by (auto simp: init_params intro: forward_params)

theorem target_sync_exact_witness:
  "\<exists>s'. train_step mock (mock_init\<lparr>eps_count := 999\<rparr>) = Inr s' \<and> eps_count s' mod 1000 = 0 \<and>
        params (target_net s') = params (online_net s')"
proof -
  obtain s' where t: "train_step mock (mock_init\<lparr>eps_count := 999\<rparr>) = Inr s'"
    using train_step_Inr by blast
  have c: "eps_count s' mod 1000 = 0"
    using train_step_eps_count [OF t] by simp
  have "params (target_net s') = params (online_net s')"
    using target_sync_exact [of mock zero_state_dict zero_state_dict "()" 0 "sconst 0"
        "mock_init\<lparr>eps_count := 999\<rparr>" s'] t c
    by simp
  with t c show ?thesis by simp
qed

lemma loop_step_Inr: "\<exists>s'. loop_step K s = Inr s'"
  using train_step_Inr [of K s] by (cases "mode s") (simp_all add: loop_step_def)

lemma train_step_online:
  assumes "train_step K s = Inr s'"
  shows "params (online_net s') = params (online_net s) \<or>
         (batch_size \<le> len (replay_memory s') \<and>
          (\<exists>exps r'. random_sample (items (replay_memory s')) batch_size
                       (rng (snd (interact K s))) = Inr (exps, r') \<and>
             params (online_net s') =
               snd (adam_step K lr (optimizer s) (params (online_net s))
                      (fst (backward K (params (online_net s)) (params (target_net s)) exps)))))"
proof -
  obtain d sa sb where i: "interact K s = (d, sa)" and l: "learn_if_ready K sa = Inr sb"
    and e: "d \<Longrightarrow> end_episode K (sync_target sb) = Inr s'"
    and n: "\<not> d \<Longrightarrow> s' = (sync_target sb)\<lparr>step := step (sync_target sb) + 1\<rparr>"
    using train_step_decompose [OF assms] by blast
  note fi = interact_frame [OF i] and fl = learn_if_ready_frame [OF l]
    and fs = sync_target_frame [of sb]
  have o: "online_net s' = online_net sb \<and> replay_memory s' = replay_memory sa"
  proof (cases d)
    case True
    from end_episode_frame [OF e [OF True]] fl fs show ?thesis by simp
  next
    case False
    from n [OF False] fl fs show ?thesis by simp
  qed
  show ?thesis
  proof (cases "batch_size \<le> len (replay_memory sa)")
    case False
    with l have "sb = sa" by (simp add: learn_if_ready_def)
    with o fi show ?thesis by simp
  next
    case True
    with l have le: "learn K sa = Inr sb" by (simp add: learn_if_ready_def)
    then obtain exps r' where
      rs: "random_sample (items (replay_memory sa)) batch_size (rng sa) = Inr (exps, r')"
      by (auto simp: learn_def split: sum.splits)
    obtain on' tg' opt' where
      tu: "training_update K (online_net sa) (target_net sa) (optimizer sa) exps = (on', tg', opt')"
      by (cases "training_update K (online_net sa) (target_net sa) (optimizer sa) exps") auto
    from le rs tu have "online_net sb = on'"
      by (auto simp: learn_def)
    with training_update_params_online [OF tu] fi
    have "params (online_net sb) =
            snd (adam_step K lr (optimizer s) (params (online_net s))
                   (fst (backward K (params (online_net s)) (params (target_net s)) exps)))"
      by simp
    with True o rs i show ?thesis by auto
  qed
qed

lemma train_step_target:
  assumes "train_step K s = Inr s'"
  shows "params (target_net s') = params (target_net s) \<or>
         (eps_count s' mod 1000 = 0 \<and> params (target_net s') = params (online_net s'))"
proof -
  obtain d sa sb where i: "interact K s = (d, sa)" and l: "learn_if_ready K sa = Inr sb"
    and e: "d \<Longrightarrow> end_episode K (sync_target sb) = Inr s'"
    and n: "\<not> d \<Longrightarrow> s' = (sync_target sb)\<lparr>step := step (sync_target sb) + 1\<rparr>"
    using train_step_decompose [OF assms] by blast
  note fi = interact_frame [OF i] and fl = learn_if_ready_frame [OF l]
  have o: "target_net s' = target_net (sync_target sb)"
  proof (cases d)
    case True
    from end_episode_frame [OF e [OF True]] show ?thesis by simp
  next
    case False
    from n [OF False] show ?thesis by simp
  qed
  show ?thesis
  proof (cases "eps_count s' mod 1000 = 0")
    case True
    with train_step_sync [OF assms] show ?thesis by simp
  next
    case False
    then have "eps_count sb mod 1000 \<noteq> 0"
      using train_step_eps_count [OF assms] fi fl by simp
    then have "sync_target sb = sb" by (simp add: sync_target_def)
    with o fl fi show ?thesis by simp
  qed
qed

text \<open>
  C6, as the code has it. A training update leaves the parameter values of the target
  network unchanged and replaces those of the online network by the result of one Adam
  step (learning rate 5e-4) on the gradient of the batch loss with respect to the online
  parameters. In every iteration of the control loop the online parameters either stay
  as they are or are the result of that step on a batch sampled from the replay memory,
  which happens only in a training iteration whose memory holds a batch; the target
  parameters either stay as they are or are the online parameters, at a step counter
  that is a multiple of 1000. The target network itself is evaluated in gradient mode.
\<close>

theorem training_update_frame:
  "(training_update K online target opt exps = (online', target', opt') \<longrightarrow>
      params target' = params target \<and>
      params online' =
        snd (adam_step K lr opt (params online)
               (fst (backward K (params online) (params target) exps)))) \<and>
   (loop_step K s = Inr s' \<longrightarrow>
      params (online_net s') = params (online_net s) \<or>
      (mode s = Training \<and> batch_size \<le> len (replay_memory s') \<and>
       (\<exists>batch r'. random_sample (items (replay_memory s')) batch_size
                     (rng (snd (interact K s))) = Inr (batch, r') \<and>
          params (online_net s') =
            snd (adam_step K lr (optimizer s) (params (online_net s))
                   (fst (backward K (params (online_net s)) (params (target_net s)) batch)))))) \<and>
   (loop_step K s = Inr s' \<longrightarrow>
      params (target_net s') = params (target_net s) \<or>
      (mode s = Training \<and> eps_count s' mod 1000 = 0 \<and>
       params (target_net s') = params (online_net s')))"
proof (intro conjI impI)
  assume "training_update K online target opt exps = (online', target', opt')"
  then show "params target' = params target"
    and "params online' =
        snd (adam_step K lr opt (params online)
               (fst (backward K (params online) (params target) exps)))"
    by (rule training_update_params_target, rule training_update_params_online)
next
  assume a: "loop_step K s = Inr s'"
  show "params (online_net s') = params (online_net s) \<or>
      (mode s = Training \<and> batch_size \<le> len (replay_memory s') \<and>
       (\<exists>batch r'. random_sample (items (replay_memory s')) batch_size
                     (rng (snd (interact K s))) = Inr (batch, r') \<and>
          params (online_net s') =
            snd (adam_step K lr (optimizer s) (params (online_net s))
                   (fst (backward K (params (online_net s)) (params (target_net s)) batch)))))"
  proof (cases "mode s")
    case Training
    with a have "train_step K s = Inr s'" by (simp add: loop_step_def)
    from train_step_online [OF this] Training show ?thesis by simp
  next
    case Evaluating
    with a have "s' = eval_step K s" by (simp add: loop_step_def)
    then show ?thesis by (simp add: eval_step_frame)
  next
    case Finished
    with a show ?thesis by (simp add: loop_step_def)
  qed
next
  assume a: "loop_step K s = Inr s'"
  show "params (target_net s') = params (target_net s) \<or>
      (mode s = Training \<and> eps_count s' mod 1000 = 0 \<and>
       params (target_net s') = params (online_net s'))"
  proof (cases "mode s")
    case Training
    with a have "train_step K s = Inr s'" by (simp add: loop_step_def)
    from train_step_target [OF this] Training show ?thesis by simp
  next
    case Evaluating
    with a have "s' = eval_step K s" by (simp add: loop_step_def)
    then show ?thesis by (simp add: eval_step_frame)
  next
    case Finished
    with a show ?thesis by (simp add: loop_step_def)
  qed
qed

text \<open>
  C6 as stated asks that the target network is evaluated without gradient. In the
  script the target \<open>y\<close> requires grad, and the backward pass of a training update fills
  the gradient buffers of the target network, which were empty before.
\<close>

theorem target_evaluated_with_grad:
  "requires_grad (optimal_q_values (Network zero_state_dict) mock_batch) \<and>
   grad (Network zero_state_dict) = None \<and>
   grad (fst (snd (training_update mock (Network zero_state_dict) (Network zero_state_dict) ()
                     mock_batch))) = Some zero_state_dict"
  by (simp add: requires_grad_optimal_q_values training_update_def Let_def mock_def
      accumulate_grad_def Network_def zero_grad_def)


subsection \<open>Modes and the schedule along a run\<close>











lemma init_fields:
  "eps_count (init K p1 p2 opt0 env0 rng0) = 0 \<and> epsilon (init K p1 p2 opt0 env0 rng0) = None \<and>
   mode (init K p1 p2 opt0 env0 rng0) = Training \<and> step (init K p1 p2 opt0 env0 rng0) = 0 \<and>
   t_episode (init K p1 p2 opt0 env0 rng0) = 0 \<and>
   env (init K p1 p2 opt0 env0 rng0) = snd (env_reset K env0) \<and>
   avg_window_steps (init K p1 p2 opt0 env0 rng0) = deque [] None"
  by (simp add: init_def Let_def split: prod.splits)

lemma run_Inr: "\<exists>s'. run K n s = Inr s'"
proof (induction n arbitrary: s)
  case 0
  show ?case by simp
next
  case (Suc n)
  obtain s1 where "loop_step K s = Inr s1" using loop_step_Inr by blast
  with Suc [of s1] show ?case by simp
qed



subsection \<open>An episode against the deterministic environment\<close>

lemma select_action_mock:
  assumes "action_space_sample K = mock_sample"
  shows "fst (snd (select_action K online st eps e r)) = e"
  using assms by (simp add: select_action_def mock_sample_def Let_def split: prod.splits)

lemma interact_mock:
  assumes "env_step K = mock_step" and "action_space_sample K = mock_sample"
    and "interact K s = (d, sa)"
  shows "d = (500 \<le> env s) \<and> env sa = env s + 1"
proof -
  let ?eps = "decay epsilon_start epsilon_end epsilon_decayrate (real (eps_count s + 1))"
  obtain a e1 r1 where sel: "select_action K (online_net s) (state s) ?eps (env s) (rng s) = (a, e1, r1)"
    by (cases "select_action K (online_net s) (state s) ?eps (env s) (rng s)") auto
  from select_action_mock [OF assms(2), of "online_net s" "state s" ?eps "env s" "rng s"] sel
  have e1: "e1 = env s" by simp
  from assms(3) sel e1 assms(1) show ?thesis
    by (auto simp: interact_def Let_def mock_step_def)
qed

lemma train_step_mock_running:
  assumes "env_step K = mock_step" and "action_space_sample K = mock_sample"
    and "env s < 500"
  shows "\<exists>s'. train_step K s = Inr s' \<and> mode s' = mode s \<and> step s' = step s + 1 \<and>
              env s' = env s + 1 \<and> avg_window_steps s' = avg_window_steps s \<and>
              t_episode s' = t_episode s"
proof -
  obtain s' where t: "train_step K s = Inr s'" using train_step_Inr by blast
  obtain d sa sb where i: "interact K s = (d, sa)" and l: "learn_if_ready K sa = Inr sb"
    and n: "\<not> d \<Longrightarrow> s' = (sync_target sb)\<lparr>step := step (sync_target sb) + 1\<rparr>"
    using train_step_decompose [OF t] by blast
  note fi = interact_frame [OF i] and fl = learn_if_ready_frame [OF l]
    and fs = sync_target_frame [of sb] and im = interact_mock [OF assms(1,2) i]
  from im assms(3) have "\<not> d" by simp
  from n [OF this] fi fl fs im t show ?thesis by simp
qed

lemma end_episode_window:
  assumes "end_episode K s = Inr s'" and "maxlen (avg_window_steps s) = None"
  shows "items (avg_window_steps s') \<noteq> [] \<and> last (items (avg_window_steps s')) = step s"
proof -
  let ?w = "append_deque (avg_window_steps s) (step s)"
  have iw: "items ?w = items (avg_window_steps s) @ [step s]"
    using assms(2) by (simp add: append_deque_def Let_def)
  obtain w' where w: "(if 5 < len ?w then popleft ?w else Inr ?w) = Inr w'"
    using assms(1) by (auto simp: end_episode_def Let_def split: sum.splits)
  have w': "items w' \<noteq> [] \<and> last (items w') = step s"
  proof (cases "5 < len ?w")
    case True
    then have ne: "items ?w \<noteq> []" by (auto simp: len_def)
    with True w popleft_Inr [OF ne] have "items w' = tl (items ?w)" by auto
    moreover from True have "tl (items ?w) \<noteq> []"
      by (cases "items ?w") (auto simp: len_def)
    ultimately show ?thesis
      using iw by (simp add: last_tl)
  next
    case False
    with w iw show ?thesis by auto
  qed
  have "avg_window_steps s' = w'"
    using assms(1) w
    by (auto simp: end_episode_def Let_def next_episode_frame split: prod.splits if_splits)
  with w' show ?thesis by simp
qed

lemma train_step_mock_done:
  assumes "env_step K = mock_step" and "action_space_sample K = mock_sample"
    and "500 \<le> env s" and "maxlen (avg_window_steps s) = None"
  shows "\<exists>s'. train_step K s = Inr s' \<and> items (avg_window_steps s') \<noteq> [] \<and>
              last (items (avg_window_steps s')) = step s"
proof -
  obtain s' where t: "train_step K s = Inr s'" using train_step_Inr by blast
  obtain d sa sb where i: "interact K s = (d, sa)" and l: "learn_if_ready K sa = Inr sb"
    and e: "d \<Longrightarrow> end_episode K (sync_target sb) = Inr s'"
    using train_step_decompose [OF t] by blast
  note fi = interact_frame [OF i] and fl = learn_if_ready_frame [OF l]
    and fs = sync_target_frame [of sb] and im = interact_mock [OF assms(1,2) i]
  from im assms(3) have d: d by simp
  have "maxlen (avg_window_steps (sync_target sb)) = None"
    using fi fl fs assms(4) by simp
  from end_episode_window [OF e [OF d] this] fi fl fs t show ?thesis by simp
qed

lemma run_mock_running:
  assumes "env_step K = mock_step" and "action_space_sample K = mock_sample"
    and "mode s = Training" and "env s + n \<le> 500"
  shows "\<exists>sn. run K n s = Inr sn \<and> mode sn = Training \<and> step sn = step s + n \<and>
              env sn = env s + n \<and> avg_window_steps sn = avg_window_steps s \<and>
              t_episode sn = t_episode s"
  using assms(3,4)
proof (induction n arbitrary: s)
  case 0
  then show ?case by simp
next
  case (Suc n)
  from Suc.prems have "env s < 500" by simp
  from train_step_mock_running [OF assms(1,2) this]
  obtain s1 where t: "train_step K s = Inr s1" and f: "mode s1 = mode s" "step s1 = step s + 1"
    "env s1 = env s + 1" "avg_window_steps s1 = avg_window_steps s" "t_episode s1 = t_episode s"
    by blast
  have l: "loop_step K s = Inr s1" using t Suc.prems(1) by (simp add: loop_step_def)
  have "mode s1 = Training" and "env s1 + n \<le> 500" using f Suc.prems by simp_all
  from Suc.IH [OF this] l f show ?case by simp
qed

lemma run_add:
  "run K (m + n) s = (case run K m s of Inl err \<Rightarrow> Inl err | Inr s1 \<Rightarrow> run K n s1)"
  by (induction m arbitrary: s) (simp_all split: sum.splits)

text \<open>
  C7. Against the environment that answers \<open>done = False\<close> on 500 steps and
  \<open>done = True\<close> on the next, an episode that starts in training with an inner counter
  of 0 runs without error; during its first 500 iterations nothing is recorded and the
  episode goes on, and the iteration that receives \<open>done = True\<close> appends 500 to
  \<open>avg_window_steps\<close>: the value of the inner counter, which counts from 0.
\<close>

theorem episode_duration_recorded:
  assumes "env_step K = mock_step" and "action_space_sample K = mock_sample"
    and "mode s = Training" and "step s = 0" and "env s = 0"
    and "maxlen (avg_window_steps s) = None"
  shows "(\<forall>n\<le>500. \<exists>sn. run K n s = Inr sn \<and> mode sn = Training \<and> step sn = n \<and>
            t_episode sn = t_episode s \<and> avg_window_steps sn = avg_window_steps s) \<and>
         (\<exists>s'. run K 501 s = Inr s' \<and> items (avg_window_steps s') \<noteq> [] \<and>
            last (items (avg_window_steps s')) = 500)"
proof (intro conjI allI impI)
  fix n :: nat
  assume "n \<le> 500"
  then have "env s + n \<le> 500" using assms(5) by simp
  from run_mock_running [OF assms(1,2,3) this] assms(4)
  show "\<exists>sn. run K n s = Inr sn \<and> mode sn = Training \<and> step sn = n \<and>
            t_episode sn = t_episode s \<and> avg_window_steps sn = avg_window_steps s"
    by auto
next
  have "env s + 500 \<le> 500" using assms(5) by simp
  from run_mock_running [OF assms(1,2,3) this]
  obtain u where r: "run K 500 s = Inr u" and f: "mode u = Training" "step u = step s + 500"
    "env u = env s + 500" "avg_window_steps u = avg_window_steps s"
    by blast
  have "500 \<le> env u" and "maxlen (avg_window_steps u) = None"
    using f assms by simp_all
  from train_step_mock_done [OF assms(1,2) this]
  obtain s' where t: "train_step K u = Inr s'" and w: "items (avg_window_steps s') \<noteq> []"
    "last (items (avg_window_steps s')) = step u"
    by blast
  have "run K 1 u = Inr s'" using t f(1) by (simp add: loop_step_def)
  with r have "run K (500 + 1) s = Inr s'" by (simp only: run_add sum.case)
  then have "run K 501 s = Inr s'" by simp
  with w f assms(4) show "\<exists>s'. run K 501 s = Inr s' \<and> items (avg_window_steps s') \<noteq> [] \<and>
            last (items (avg_window_steps s')) = 500"
    by simp
qed

lemma mock_init_fields:
  "mode mock_init = Training \<and> step mock_init = 0 \<and> env mock_init = 0 \<and>
   maxlen (avg_window_steps mock_init) = None \<and> eps_count mock_init = 0"
  by (simp add: mock_init_def init_fields mock_def mock_reset_def deque_def)

theorem episode_duration_recorded_witness:
  "\<exists>s'. run mock 501 mock_init = Inr s' \<and> last (items (avg_window_steps s')) = 500"
proof -
  have k: "env_step mock = mock_step" "action_space_sample mock = mock_sample"
    by (simp_all add: mock_def)
  have i: "mode mock_init = Training" "step mock_init = 0" "env mock_init = 0"
    "maxlen (avg_window_steps mock_init) = None"
    by (simp_all add: mock_init_fields)
  from episode_duration_recorded [OF k i]
  obtain s' where "run mock 501 mock_init = Inr s'" "last (items (avg_window_steps s')) = 500"
    by blast
  then show ?thesis by blast
qed


subsection \<open>The evaluation loop\<close>






theorem training_update_frame_witness:
  "\<exists>s'. loop_step mock mock_init = Inr s' \<and>
        params (fst (snd (training_update mock (Network zero_state_dict)
                            (Network zero_state_dict) () mock_batch))) = params (Network zero_state_dict) \<and>
        (params (target_net s') = params (target_net mock_init) \<or>
         mode mock_init = Training \<and> eps_count s' mod 1000 = 0 \<and>
         params (target_net s') = params (online_net s'))"
proof -
  obtain s' where l: "loop_step mock mock_init = Inr s'" using loop_step_Inr by blast
  let ?r = "training_update mock (Network zero_state_dict) (Network zero_state_dict) () mock_batch"
  have r: "?r = (fst ?r, fst (snd ?r), snd (snd ?r))" by (simp add: prod_eq_iff)
  from training_update_frame [of mock "Network zero_state_dict" "Network zero_state_dict" "()"
      mock_batch "fst ?r" "fst (snd ?r)" "snd (snd ?r)" mock_init s'] l r
  have "params (fst (snd ?r)) = params (Network zero_state_dict)"
    and "params (target_net s') = params (target_net mock_init) \<or>
         mode mock_init = Training \<and> eps_count s' mod 1000 = 0 \<and>
         params (target_net s') = params (online_net s')"
    by blast+
  with l show ?thesis by (intro exI [of _ s']) simp
qed



end
